theory Spec2Isabelle
  imports Main "HOL-Library.Sublist" "HOL-Library.List_Lexorder"
begin

section \<open>Link Hub: the link store and the query layer of \<open>linkhub.py\<close>\<close>

text \<open>
  The program is a single Flask module. Its routes read the request, load the whole
  collection from one JSON file, act on it and (for the admin routes) write the whole
  collection back. The embedding makes the file, the permissions on it, the configured
  password and the clock an explicit \<open>world\<close> that every route takes and returns.

  A Python \<open>str\<close> is a sequence of Unicode code points, so text is a list of natural
  numbers, \<open>ustring\<close>; \<open>lit\<close> turns a literal of the source into its code points. The
  values of a request are decoded from UTF-8, so they hold no surrogate, and the model
  does not set surrogates apart.

  Of the built-ins the program calls, \<open>strip\<close>, \<open>in\<close> and \<open>or\<close> are modelled in full.
  \<open>str.lower\<close>, \<open>int\<close> and \<open>urlparse\<close> depend on tables of the interpreter (case mappings,
  decimal digits, address syntax), so the routes take them as parameters; a stand-in for
  each, right on the range its text names, serves the concrete evaluations.
\<close>

subsection \<open>Text\<close>

type_synonym ustring = "nat list"

definition lit :: "string \<Rightarrow> ustring" where
  "lit s = map of_char s"

text \<open>\<open>str.isspace\<close> on one code point: TAB..CR, FS..US, space, NEL, NBSP, and the
  spaces and separators U+1680, U+2000..U+200A, U+2028, U+2029, U+202F, U+205F,
  U+3000.\<close>

definition is_space :: "nat \<Rightarrow> bool" where
  "is_space n =
     ((9 \<le> n \<and> n \<le> 13) \<or> (28 \<le> n \<and> n \<le> 32) \<or> n = 133 \<or> n = 160 \<or> n = 5760
      \<or> (8192 \<le> n \<and> n \<le> 8202) \<or> n = 8232 \<or> n = 8233 \<or> n = 8239 \<or> n = 8287
      \<or> n = 12288)"

text \<open>\<open>s.strip()\<close>: whitespace removed at both ends.\<close>

definition strip :: "ustring \<Rightarrow> ustring" where
  "strip s = rev (dropWhile is_space (rev (dropWhile is_space s)))"

text \<open>\<open>sub in s\<close> on strings: \<open>s\<close> starts with \<open>sub\<close> at some position.\<close>

fun py_in :: "ustring \<Rightarrow> ustring \<Rightarrow> bool" where
  "py_in sub [] = (sub = [])"
| "py_in sub (c # s) = (take (length sub) (c # s) = sub \<or> py_in sub s)"

text \<open>\<open>a or b\<close> on strings: \<open>b\<close> when \<open>a\<close> is empty.\<close>

definition or_str :: "ustring \<Rightarrow> ustring \<Rightarrow> ustring" where
  "or_str a b = (if a \<noteq> [] then a else b)"

subsection \<open>Links\<close>

text \<open>
  A link is the dictionary the program itself builds in \<open>admin_add\<close> and in
  \<open>DEFAULT_LINKS\<close>: the six keys are always present, \<open>id\<close> holds an integer and the
  other five hold text. On such a dictionary \<open>l.get(k, default)\<close> is the field \<open>k\<close>.
\<close>

record link =
  link_id :: int
  title :: ustring
  url :: ustring
  link_notes :: ustring
  category :: ustring
  created :: ustring

definition DEFAULT_LINKS :: "link list" where
  "DEFAULT_LINKS =
    [\<lparr>link_id = 1, title = lit ''Google'', url = lit ''https://www.google.com'',
      link_notes = lit ''Search'', category = lit ''Search'', created = lit ''''\<rparr>,
     \<lparr>link_id = 2, title = lit ''GitHub'', url = lit ''https://github.com'',
      link_notes = lit ''Code hosting'', category = lit ''Dev'', created = lit ''''\<rparr>,
     \<lparr>link_id = 3, title = lit ''YouTube'', url = lit ''https://www.youtube.com'',
      link_notes = lit ''Videos'', category = lit ''Media'', created = lit ''''\<rparr>]"

text \<open>\<open>next_id\<close>: 1 on the empty list; otherwise \<open>max\<close> runs over the ids from the left,
  keeping the largest seen so far, and 1 is added.\<close>

fun next_id :: "link list \<Rightarrow> int" where
  "next_id [] = 1"
| "next_id (l # ls) = foldl max (link_id l) (map link_id ls) + 1"

subsection \<open>The world: data file, permissions, configuration, clock\<close>

text \<open>
  What \<open>DATA_FILE\<close> holds: text that \<open>json.load\<close> rejects, or the JSON of a list of
  links. \<open>json.dump\<close> followed by \<open>json.load\<close> gives back the list that was written.
\<close>

datatype content = Unparsable | Links "link list"

text \<open>
  \<open>data_file\<close> is \<open>None\<close> when \<open>os.path.exists(DATA_FILE)\<close> is false; \<open>can_read\<close> and
  \<open>can_write\<close> say whether \<open>open(DATA_FILE, 'r')\<close> and \<open>open(DATA_FILE, 'w')\<close> succeed;
  \<open>clock n\<close> is what the \<open>n\<close>-th coming call of \<open>datetime.utcnow().isoformat()\<close> returns.
\<close>

record world =
  ADMIN_PASSWORD :: ustring
  data_file :: "content option"
  can_read :: bool
  can_write :: bool
  clock :: "nat \<Rightarrow> ustring"

text \<open>
  How a request can end without a response of its own: \<open>abort(status)\<close>, an \<open>OSError\<close>
  that \<open>open\<close> raised and nothing caught, a \<open>ValueError\<close> that \<open>urlparse\<close> raised and
  nothing caught. The specification calls \<open>Abort 403\<close> Forbidden, \<open>Abort 400\<close>
  ValidationError, \<open>Abort 404\<close> NotFound and \<open>OSError\<close> StorageUnavailable.
\<close>

datatype error = Abort nat | OSError | ValueError

datatype response =
    Redirect ustring
  | Index_page "link list" ustring "ustring list" ustring
  | Admin_page "link list"
  | Json "link list"

definition utcnow_isoformat :: "world \<Rightarrow> ustring \<times> world" where
  "utcnow_isoformat w = (clock w 0, w\<lparr>clock := (\<lambda>n. clock w (Suc n))\<rparr>)"

subsection \<open>Persistence\<close>

definition save_links :: "link list \<Rightarrow> world \<Rightarrow> (error + unit) \<times> world" where
  "save_links links w =
     (if can_write w then (Inr (), w\<lparr>data_file := Some (Links links)\<rparr>)
      else (Inl OSError, w))"

text \<open>The loop of \<open>load_links\<close> over the default links: each gets the clock's next
  reading, followed by \<open>Z\<close>, as its \<open>created\<close>. The loop writes into the dictionaries of the
  global list; since it overwrites every \<open>created\<close> before anything reads one, the model
  starts each run from the constant \<open>DEFAULT_LINKS\<close>.\<close>

fun stamp :: "link list \<Rightarrow> world \<Rightarrow> link list \<times> world" where
  "stamp [] w = ([], w)"
| "stamp (l # ls) w =
     (case utcnow_isoformat w of (t, w1) \<Rightarrow>
        (case stamp ls w1 of (ls', w2) \<Rightarrow> (l\<lparr>created := t @ lit ''Z''\<rparr> # ls', w2)))"

text \<open>The \<open>try\<close> block of \<open>load_links\<close>: any exception of \<open>open\<close> or \<open>json.load\<close> gives
  the empty list.\<close>

definition read_links :: "world \<Rightarrow> link list" where
  "read_links w =
     (if can_read w
      then (case data_file w of Some (Links ls) \<Rightarrow> ls | Some Unparsable \<Rightarrow> [] | None \<Rightarrow> [])
      else [])"

definition load_links :: "world \<Rightarrow> (error + link list) \<times> world" where
  "load_links w =
     (case (if data_file w = None
            then (case stamp DEFAULT_LINKS w of (seed, w1) \<Rightarrow> save_links seed w1)
            else (Inr (), w)) of
        (Inl e, w') \<Rightarrow> (Inl e, w')
      | (Inr u, w') \<Rightarrow> (Inr (read_links w'), w'))"

subsection \<open>Requests\<close>

text \<open>\<open>request.args\<close> and \<open>request.form\<close> are dictionaries from names to text; the
  program looks them up under literal names only. \<open>d.get(k, default)\<close> is \<open>dict_get\<close>.\<close>

definition dict_get :: "(string \<rightharpoonup> ustring) \<Rightarrow> string \<Rightarrow> ustring \<Rightarrow> ustring" where
  "dict_get d k dflt = (case d k of None \<Rightarrow> dflt | Some v \<Rightarrow> v)"

subsection \<open>Query layer: the two filters of \<open>index\<close>\<close>

text \<open>Lines 227-228 of \<open>index\<close>, on the trimmed \<open>category\<close> argument; \<open>lower\<close> is
  \<open>str.lower\<close>.\<close>

definition filter_by_category ::
  "(ustring \<Rightarrow> ustring) \<Rightarrow> link list \<Rightarrow> ustring \<Rightarrow> link list" where
  "filter_by_category lower filtered cat =
     (if cat \<noteq> []
      then filter (\<lambda>l. lower (or_str (category l) []) = lower cat) filtered
      else filtered)"

text \<open>Lines 229-231 of \<open>index\<close>, on the trimmed \<open>q\<close> argument.\<close>

definition filter_by_text ::
  "(ustring \<Rightarrow> ustring) \<Rightarrow> link list \<Rightarrow> ustring \<Rightarrow> link list" where
  "filter_by_text lower filtered q =
     (if q \<noteq> []
      then (let ql = lower q in
            filter (\<lambda>l. py_in ql (lower (title l)) \<or> py_in ql (lower (link_notes l))
                        \<or> py_in ql (lower (url l))) filtered)
      else filtered)"

definition index ::
  "(ustring \<Rightarrow> ustring) \<Rightarrow> (string \<rightharpoonup> ustring) \<Rightarrow> world \<Rightarrow> (error + response) \<times> world" where
  "index lower args w =
     (let q = strip (dict_get args ''q'' []);
          cat = strip (dict_get args ''category'' [])
      in case load_links w of
           (Inl e, w1) \<Rightarrow> (Inl e, w1)
         | (Inr links, w1) \<Rightarrow>
             (let filtered = filter_by_text lower (filter_by_category lower links cat) q;
                  categories = sort (remdups (filter (\<lambda>c. c \<noteq> []) (map category links)))
              in case utcnow_isoformat w1 of
                   (t, w2) \<Rightarrow> (Inr (Index_page filtered q categories (take 10 t)), w2)))"

subsection \<open>Link store: lookup, add, delete\<close>

text \<open>Lines 238-241 of \<open>redirect_link\<close>: load, take the first link with the id, or 404.\<close>

definition find_by_id :: "int \<Rightarrow> world \<Rightarrow> (error + link) \<times> world" where
  "find_by_id lid w =
     (case load_links w of
        (Inl e, w1) \<Rightarrow> (Inl e, w1)
      | (Inr links, w1) \<Rightarrow>
          (case find (\<lambda>l. link_id l = lid) links of
             None \<Rightarrow> (Inl (Abort 404), w1)
           | Some m \<Rightarrow> (Inr m, w1)))"

definition redirect_link :: "int \<Rightarrow> world \<Rightarrow> (error + response) \<times> world" where
  "redirect_link lid w =
     (case find_by_id lid w of
        (Inl e, w1) \<Rightarrow> (Inl e, w1)
      | (Inr m, w1) \<Rightarrow> (Inr (Redirect (url m)), w1))"

definition admin_index :: "world \<Rightarrow> (error + response) \<times> world" where
  "admin_index w =
     (case load_links w of
        (Inl e, w1) \<Rightarrow> (Inl e, w1)
      | (Inr links, w1) \<Rightarrow> (Inr (Admin_page links), w1))"

definition api_links :: "world \<Rightarrow> (error + response) \<times> world" where
  "api_links w =
     (case load_links w of
        (Inl e, w1) \<Rightarrow> (Inl e, w1)
      | (Inr links, w1) \<Rightarrow> (Inr (Json links), w1))"

text \<open>
  Lines 257-269 of \<open>admin_add\<close>, everything after the password check; the result is the
  dictionary \<open>new\<close> that was appended and saved. \<open>urlparse\<close> belongs to the standard
  library, so it is a parameter: \<open>urlparse_scheme u\<close> is \<open>Some (urlparse(u).scheme)\<close>, or
  \<open>None\<close> when \<open>urlparse(u)\<close> raises \<open>ValueError\<close>.
\<close>

definition add_link ::
  "(ustring \<Rightarrow> ustring option) \<Rightarrow> (string \<rightharpoonup> ustring) \<Rightarrow> world \<Rightarrow> (error + link) \<times> world" where
  "add_link urlparse_scheme form w =
     (let title0 = strip (dict_get form ''title'' []);
          url0 = strip (dict_get form ''url'' []);
          category0 = strip (dict_get form ''category'' []);
          notes0 = strip (dict_get form ''notes'' [])
      in if \<not> (title0 \<noteq> [] \<and> url0 \<noteq> []) then (Inl (Abort 400), w)
         else case urlparse_scheme url0 of
                None \<Rightarrow> (Inl ValueError, w)
              | Some scheme \<Rightarrow>
                  (let url1 = (if scheme = [] then lit ''https://'' @ url0 else url0)
                   in case load_links w of
                        (Inl e, w1) \<Rightarrow> (Inl e, w1)
                      | (Inr links, w1) \<Rightarrow>
                          (case utcnow_isoformat w1 of
                             (t, w2) \<Rightarrow>
                               (let new = \<lparr>link_id = next_id links, title = title0, url = url1,
                                           link_notes = notes0, category = category0,
                                           created = t @ lit ''Z''\<rparr>
                                in case save_links (links @ [new]) w2 of
                                     (Inl e, w3) \<Rightarrow> (Inl e, w3)
                                   | (Inr u, w3) \<Rightarrow> (Inr new, w3)))))"

definition admin_add ::
  "(ustring \<Rightarrow> ustring option) \<Rightarrow> (string \<rightharpoonup> ustring) \<Rightarrow> world
     \<Rightarrow> (error + response) \<times> world" where
  "admin_add urlparse_scheme form w =
     (if dict_get form ''pass'' [] \<noteq> ADMIN_PASSWORD w then (Inl (Abort 403), w)
      else case add_link urlparse_scheme form w of
             (Inl e, w1) \<Rightarrow> (Inl e, w1)
           | (Inr new, w1) \<Rightarrow> (Inr (Redirect (lit ''/admin'')), w1))"

text \<open>Lines 282-284 of \<open>admin_delete\<close>, on the id that \<open>int\<close> returned.\<close>

definition delete_by_id :: "int \<Rightarrow> world \<Rightarrow> (error + unit) \<times> world" where
  "delete_by_id lid w =
     (case load_links w of
        (Inl e, w1) \<Rightarrow> (Inl e, w1)
      | (Inr links, w1) \<Rightarrow> save_links (filter (\<lambda>l. link_id l \<noteq> lid) links) w1)"

text \<open>
  \<open>admin_delete\<close>. The built-in \<open>int\<close> is a parameter: \<open>py_int s\<close> is \<open>Some (int(s))\<close>, or
  \<open>None\<close> when \<open>int(s)\<close> raises. \<open>request.form.get('id')\<close> is Python's \<open>None\<close> when the
  field is missing, and \<open>int(None)\<close> raises too: both ways end in \<open>abort(400)\<close>.
\<close>

definition admin_delete ::
  "(ustring \<Rightarrow> int option) \<Rightarrow> (string \<rightharpoonup> ustring) \<Rightarrow> world
     \<Rightarrow> (error + response) \<times> world" where
  "admin_delete py_int form w =
     (if dict_get form ''pass'' [] \<noteq> ADMIN_PASSWORD w then (Inl (Abort 403), w)
      else case (case form ''id'' of None \<Rightarrow> None | Some s \<Rightarrow> py_int s) of
             None \<Rightarrow> (Inl (Abort 400), w)
           | Some lid \<Rightarrow>
               (case delete_by_id lid w of
                  (Inl e, w1) \<Rightarrow> (Inl e, w1)
                | (Inr u, w1) \<Rightarrow> (Inr (Redirect (lit ''/admin'')), w1)))"

subsection \<open>A stand-in for \<open>str.lower\<close>\<close>

text \<open>
  The theorems below hold for every function in the place of \<open>str.lower\<close>; the concrete
  evaluations need one. This one is \<open>str.lower\<close> on text of code points below 256 and of
  the Greek letters U+0391..U+03AB and U+03B1..U+03CB (other code points pass unchanged,
  which is not always what \<open>str.lower\<close> does). Every capital moves up by 32 but capital
  sigma, which becomes final sigma (962) when a cased letter stands before it and none
  after it, case-ignorable characters skipped on both sides, and small sigma (963)
  otherwise.
\<close>

definition lower_cp :: "nat \<Rightarrow> nat" where
  "lower_cp c =
     (if (65 \<le> c \<and> c \<le> 90) \<or> (192 \<le> c \<and> c \<le> 222 \<and> c \<noteq> 215)
         \<or> (913 \<le> c \<and> c \<le> 939 \<and> c \<noteq> 930)
      then c + 32 else c)"

definition cased_cp :: "nat \<Rightarrow> bool" where
  "cased_cp c =
     ((65 \<le> c \<and> c \<le> 90) \<or> (97 \<le> c \<and> c \<le> 122) \<or> c = 170 \<or> c = 181 \<or> c = 186
      \<or> (192 \<le> c \<and> c \<le> 214) \<or> (216 \<le> c \<and> c \<le> 246) \<or> (248 \<le> c \<and> c \<le> 255)
      \<or> (913 \<le> c \<and> c \<le> 929) \<or> (931 \<le> c \<and> c \<le> 939) \<or> (945 \<le> c \<and> c \<le> 971))"

definition ignorable_cp :: "nat \<Rightarrow> bool" where
  "ignorable_cp c =
     (c = 39 \<or> c = 46 \<or> c = 58 \<or> c = 94 \<or> c = 96 \<or> c = 168 \<or> c = 173 \<or> c = 175
      \<or> c = 180 \<or> c = 183 \<or> c = 184)"

text \<open>\<open>before\<close> is the text in front of the sigma, nearest code point first.\<close>

definition final_sigma :: "ustring \<Rightarrow> ustring \<Rightarrow> bool" where
  "final_sigma before after =
     ((case dropWhile ignorable_cp before of [] \<Rightarrow> False | x # xs \<Rightarrow> cased_cp x)
      \<and> (case dropWhile ignorable_cp after of [] \<Rightarrow> True | y # ys \<Rightarrow> \<not> cased_cp y))"

fun lower_from :: "ustring \<Rightarrow> ustring \<Rightarrow> ustring" where
  "lower_from before [] = []"
| "lower_from before (c # rest) =
     (if c = 931 then (if final_sigma before rest then 962 else 963) else lower_cp c)
       # lower_from (c # before) rest"

definition lower_latin_greek :: "ustring \<Rightarrow> ustring" where
  "lower_latin_greek s = lower_from [] s"

subsection \<open>A stand-in for \<open>int\<close>\<close>

text \<open>
  \<open>int(s)\<close> on text whose digits are the ASCII ones: the whitespace that \<open>int\<close> drops
  around the number is TAB..CR, space and the whitespace above U+007F (not FS..US); one
  sign may lead; then decimal digits, where single underscores may stand between two
  digits; more than 4300 digits are refused. \<open>None\<close> is the \<open>ValueError\<close>.
\<close>

definition int_space :: "nat \<Rightarrow> bool" where
  "int_space c = ((9 \<le> c \<and> c \<le> 13) \<or> c = 32 \<or> (127 \<le> c \<and> is_space c))"

definition is_digit :: "nat \<Rightarrow> bool" where
  "is_digit c = (48 \<le> c \<and> c \<le> 57)"

fun parse_digits :: "int \<Rightarrow> ustring \<Rightarrow> int option" where
  "parse_digits acc [] = Some acc"
| "parse_digits acc (c # cs) =
     (if is_digit c then parse_digits (acc * 10 + (int c - 48)) cs
      else if c = 95 \<and> cs \<noteq> [] \<and> is_digit (hd cs) then parse_digits acc cs
      else None)"

definition parse_unsigned :: "ustring \<Rightarrow> int option" where
  "parse_unsigned s =
     (if s \<noteq> [] \<and> is_digit (hd s) \<and> length (filter is_digit s) \<le> 4300
      then parse_digits 0 s else None)"

definition int_ascii :: "ustring \<Rightarrow> int option" where
  "int_ascii s =
     (case rev (dropWhile int_space (rev (dropWhile int_space s))) of
        [] \<Rightarrow> None
      | c # cs \<Rightarrow>
          if c = 45 then map_option uminus (parse_unsigned cs)
          else if c = 43 then parse_unsigned cs
          else parse_unsigned (c # cs))"

subsection \<open>A stand-in for \<open>urlparse\<close>\<close>

text \<open>
  \<open>urlparse(u).scheme\<close> on urls without square brackets, after CPython's \<open>urlsplit\<close>:
  leading control characters and spaces are dropped, TAB, CR and LF are removed, and
  the text before the first colon is the scheme, in lower case, when it is not empty,
  starts with an ASCII letter and consists of ASCII letters, digits, \<open>+\<close>, \<open>-\<close> and \<open>.\<close>.
  A network location with one square bracket but not the other raises \<open>ValueError\<close>;
  what \<open>urlsplit\<close> further refuses between two brackets is not modelled.
\<close>

definition ascii_alpha :: "nat \<Rightarrow> bool" where
  "ascii_alpha c = ((65 \<le> c \<and> c \<le> 90) \<or> (97 \<le> c \<and> c \<le> 122))"

definition scheme_char :: "nat \<Rightarrow> bool" where
  "scheme_char c = (ascii_alpha c \<or> is_digit c \<or> c = 43 \<or> c = 45 \<or> c = 46)"

definition urlsplit_scheme :: "ustring \<Rightarrow> ustring option" where
  "urlsplit_scheme u0 =
     (let u = filter (\<lambda>c. c \<noteq> 9 \<and> c \<noteq> 10 \<and> c \<noteq> 13) (dropWhile (\<lambda>c. c \<le> 32) u0);
          i = length (takeWhile (\<lambda>c. c \<noteq> 58) u);
          found = (i < length u \<and> 0 < i \<and> ascii_alpha (hd u) \<and> list_all scheme_char (take i u));
          scheme = (if found then map lower_cp (take i u) else []);
          rest = (if found then drop (Suc i) u else u);
          netloc = (if take 2 rest = [47, 47]
                    then takeWhile (\<lambda>c. c \<noteq> 47 \<and> c \<noteq> 63 \<and> c \<noteq> 35) (drop 2 rest)
                    else [])
      in if (91 \<in> set netloc) \<noteq> (93 \<in> set netloc) then None else Some scheme)"

subsection \<open>Example worlds, requests and links\<close>

text \<open>A world with no data file yet, one whose file holds the default links, and one
  whose file exists but may be neither read nor written.\<close>

definition fresh_world :: world where
  "fresh_world = \<lparr>ADMIN_PASSWORD = lit ''changeme'', data_file = None, can_read = True,
     can_write = True, clock = (\<lambda>n. lit ''2024-01-01T00:00:00'')\<rparr>"

definition seeded_world :: world where
  "seeded_world = \<lparr>ADMIN_PASSWORD = lit ''changeme'', data_file = Some (Links DEFAULT_LINKS),
     can_read = True, can_write = True, clock = (\<lambda>n. lit ''2024-01-01T00:00:00'')\<rparr>"

definition locked_world :: world where
  "locked_world = \<lparr>ADMIN_PASSWORD = lit ''changeme'', data_file = Some (Links DEFAULT_LINKS),
     can_read = False, can_write = False, clock = (\<lambda>n. lit ''2024-01-01T00:00:00'')\<rparr>"

text \<open>A request with a wrong password, a blank title and an id that is no number; and
  one with the right password and an empty title.\<close>

definition bad_request :: "string \<rightharpoonup> ustring" where
  "bad_request = [''pass'' \<mapsto> lit ''guess'', ''title'' \<mapsto> lit ''  '', ''id'' \<mapsto> lit ''abc'']"

definition untitled_form :: "string \<rightharpoonup> ustring" where
  "untitled_form =
     [''pass'' \<mapsto> lit ''changeme'', ''title'' \<mapsto> [], ''url'' \<mapsto> lit ''example.com'']"

text \<open>A complete form with the right password and blanks around the title.\<close>

definition padded_form :: "string \<rightharpoonup> ustring" where
  "padded_form =
     [''pass'' \<mapsto> lit ''changeme'', ''title'' \<mapsto> lit '' Docs '', ''url'' \<mapsto> lit ''example.com'',
      ''category'' \<mapsto> lit ''Dev'', ''notes'' \<mapsto> lit ''read me'']"




section \<open>Properties\<close>

subsection \<open>Literals\<close>

lemma lit_eq_iff: "lit a = lit b \<longleftrightarrow> a = b"
  by (simp add: lit_def inj_map_eq_map inj_on_def)

lemma lit_Nil: "lit [] = []"
  by (simp add: lit_def)

lemma lit_eq_Nil: "lit a = [] \<longleftrightarrow> a = []"
  by (simp add: lit_def)

lemma lit_append: "lit (a @ b) = lit a @ lit b"
  by (simp add: lit_def)

subsection \<open>Identifier assignment\<close>

lemma foldl_max_Max: "foldl max (a::int) xs = Max (set (a # xs))"
proof (induction xs arbitrary: a)
  case Nil
  show ?case by simp
next
  case (Cons x xs)
  have "Max (insert x (insert a (set xs))) = Max (insert (max a x) (set xs))"
    by (cases "xs = []") (simp_all add: max.assoc max.commute max.left_commute)
  with Cons show ?case by (simp add: insert_commute)
qed

lemma next_id_Max: "links \<noteq> [] \<Longrightarrow> next_id links = Max (link_id ` set links) + 1"
  by (cases links) (simp_all add: foldl_max_Max)

text \<open>
  Claim C3. \<open>next_id\<close> returns 1 on the empty collection and the largest existing id
  plus 1 on every other one; whenever the ids of the collection are exactly 1, 3 and 5
  (in any order, with or without repetition) it returns 6.
\<close>

theorem next_id_spec:
  "next_id [] = 1
   \<and> (links \<noteq> [] \<longrightarrow> next_id links = Max (link_id ` set links) + 1)
   \<and> (link_id ` set links = {1, 3, 5} \<longrightarrow> next_id links = 6)"
proof -
  have "next_id links = 6" if h: "link_id ` set links = {1, 3, 5}"
  proof -
    from h have "links \<noteq> []" by auto
    then have "next_id links = Max (link_id ` set links) + 1" by (rule next_id_Max)
    with h show ?thesis by simp
  qed
  then show ?thesis by (simp add: next_id_Max)
qed

theorem next_id_spec_witness:
  "next_id [] = 1 \<and> next_id DEFAULT_LINKS = 4
   \<and> next_id [\<lparr>link_id = 5, title = lit ''c'', url = lit ''w'', link_notes = [], category = [], created = []\<rparr>,
               \<lparr>link_id = 1, title = lit ''a'', url = lit ''u'', link_notes = [], category = [], created = []\<rparr>,
               \<lparr>link_id = 3, title = lit ''b'', url = lit ''v'', link_notes = [], category = [], created = []\<rparr>] = 6"
proof -
  let ?ls = "[\<lparr>link_id = 5, title = lit ''c'', url = lit ''w'', link_notes = [], category = [], created = []\<rparr>,
              \<lparr>link_id = 1, title = lit ''a'', url = lit ''u'', link_notes = [], category = [], created = []\<rparr>,
              \<lparr>link_id = 3, title = lit ''b'', url = lit ''v'', link_notes = [], category = [], created = []\<rparr>]"
  have "link_id ` set ?ls = {1, 3, 5}" by auto
  with next_id_spec [of ?ls] have "next_id ?ls = 6" by blast
  moreover have "DEFAULT_LINKS \<noteq> [] \<and> Max (link_id ` set DEFAULT_LINKS) + 1 = 4"
    by (simp add: DEFAULT_LINKS_def)
  with next_id_spec [of DEFAULT_LINKS] have "next_id DEFAULT_LINKS = 4" by simp
  ultimately show ?thesis by simp
qed

subsection \<open>Loading\<close>

lemma load_links_existing:
  "data_file w \<noteq> None \<Longrightarrow> load_links w = (Inr (read_links w), w)"
  by (auto simp add: load_links_def)

lemma stamp_DEFAULT_LINKS:
  "stamp DEFAULT_LINKS w =
     ([\<lparr>link_id = 1, title = lit ''Google'', url = lit ''https://www.google.com'',
        link_notes = lit ''Search'', category = lit ''Search'', created = clock w 0 @ lit ''Z''\<rparr>,
       \<lparr>link_id = 2, title = lit ''GitHub'', url = lit ''https://github.com'',
        link_notes = lit ''Code hosting'', category = lit ''Dev'', created = clock w 1 @ lit ''Z''\<rparr>,
       \<lparr>link_id = 3, title = lit ''YouTube'', url = lit ''https://www.youtube.com'',
        link_notes = lit ''Videos'', category = lit ''Media'', created = clock w 2 @ lit ''Z''\<rparr>],
      w\<lparr>clock := (\<lambda>n. clock w (n + 3))\<rparr>)"
  by (simp add: DEFAULT_LINKS_def utcnow_isoformat_def numeral_2_eq_2 numeral_3_eq_3)

lemma load_links_missing:
  assumes "data_file w = None" "can_write w"
  shows "load_links w =
    (Inr (if can_read w then fst (stamp DEFAULT_LINKS w) else []),
     (snd (stamp DEFAULT_LINKS w))\<lparr>data_file := Some (Links (fst (stamp DEFAULT_LINKS w)))\<rparr>)"
  using assms
  by (simp add: load_links_def save_links_def read_links_def stamp_DEFAULT_LINKS)

text \<open>
  Claim C4. When there is no data file and the file can be written and read,
  \<open>load_links\<close> returns exactly three links, with the ids 1, 2, 3 in this order, each
  with a non-empty \<open>created\<close> (the clock's next three readings, each followed by \<open>Z\<close>), and
  afterwards the data file exists and holds these three links.
\<close>

theorem load_links_seeds:
  assumes "data_file w = None" and "can_write w" and "can_read w"
  shows "\<exists>seeded w'. load_links w = (Inr seeded, w')
           \<and> length seeded = 3
           \<and> map link_id seeded = [1, 2, 3]
           \<and> map created seeded
               = [clock w 0 @ lit ''Z'', clock w 1 @ lit ''Z'', clock w 2 @ lit ''Z'']
           \<and> (\<forall>l \<in> set seeded. created l \<noteq> [])
           \<and> data_file w' = Some (Links seeded)"
  using assms by (simp add: load_links_missing stamp_DEFAULT_LINKS lit_eq_Nil)

theorem load_links_seeds_witness:
  "\<exists>seeded w'. load_links fresh_world = (Inr seeded, w')
           \<and> length seeded = 3
           \<and> map link_id seeded = [1, 2, 3]
           \<and> map created seeded =
               [lit ''2024-01-01T00:00:00Z'', lit ''2024-01-01T00:00:00Z'',
                lit ''2024-01-01T00:00:00Z'']
           \<and> (\<forall>l \<in> set seeded. created l \<noteq> [])
           \<and> data_file w' = Some (Links seeded)"
  using load_links_seeds [of fresh_world]
  by (simp add: fresh_world_def lit_append [symmetric])

text \<open>
  Claim C5, as stated, fails: on a data file that exists but cannot be opened for
  reading, \<open>load_links\<close> does not fail with a storage error; the \<open>except Exception\<close> of its
  \<open>try\<close> block catches the error of \<open>open\<close> as it catches the error of \<open>json.load\<close>, and
  the result is the empty list.
\<close>

theorem load_links_unreadable_counterexample:
  "data_file locked_world = Some (Links DEFAULT_LINKS) \<and> \<not> can_read locked_world
   \<and> load_links locked_world = (Inr [], locked_world)
   \<and> fst (load_links locked_world) \<noteq> Inl OSError"
  by (simp add: locked_world_def load_links_def read_links_def)

text \<open>
  Claim C5, amended. On an existing data file \<open>load_links\<close> never fails and changes
  nothing: it returns the stored list when the file can be read and parsed, and the
  empty list both when the file cannot be read and when it cannot be parsed.
\<close>

theorem load_links_lenient:
  assumes "data_file w = Some c"
  shows "load_links w =
           (Inr (if can_read w then (case c of Links ls \<Rightarrow> ls | Unparsable \<Rightarrow> []) else []), w)"
  using assms by (simp add: load_links_def read_links_def split: content.splits)

theorem load_links_lenient_witness:
  "load_links locked_world = (Inr [], locked_world)
   \<and> load_links (seeded_world\<lparr>data_file := Some Unparsable\<rparr>)
       = (Inr [], seeded_world\<lparr>data_file := Some Unparsable\<rparr>)"
  using load_links_lenient [of locked_world "Links DEFAULT_LINKS"]
    load_links_lenient [of "seeded_world\<lparr>data_file := Some Unparsable\<rparr>" Unparsable]
  by (simp add: locked_world_def seeded_world_def)

subsection \<open>Deleting\<close>

text \<open>
  Claim C6. When the data file holds a collection and can be read and written, deleting
  an id that no link of the collection has does not fail and leaves the world, and so
  the stored collection, as it was.
\<close>

theorem delete_absent_id_unchanged:
  assumes "data_file w = Some (Links ls)" and "can_read w" and "can_write w"
    and "lid \<notin> link_id ` set ls"
  shows "delete_by_id lid w = (Inr (), w)"
proof -
  have "filter (\<lambda>l. link_id l \<noteq> lid) ls = ls"
    using assms(4) by (auto simp: filter_id_conv)
  moreover have "w\<lparr>data_file := Some (Links ls)\<rparr> = w"
    using assms(1) by simp
  ultimately show ?thesis
    using assms(1-3) by (simp add: delete_by_id_def load_links_def read_links_def save_links_def)
qed

theorem delete_absent_id_unchanged_witness:
  "delete_by_id 7 seeded_world = (Inr (), seeded_world)"
  using delete_absent_id_unchanged [of seeded_world DEFAULT_LINKS 7]
  by (simp add: seeded_world_def DEFAULT_LINKS_def)

subsection \<open>Authorisation and validation\<close>

text \<open>
  Claim C10. In \<open>admin_add\<close> and in \<open>admin_delete\<close> a password that differs from the
  configured one ends the request with \<open>abort(403)\<close> and the world unchanged, whatever
  the other fields of the form are.
\<close>

theorem secret_checked_first:
  assumes "dict_get form ''pass'' [] \<noteq> ADMIN_PASSWORD w"
  shows "admin_add urlparse_scheme form w = (Inl (Abort 403), w)
         \<and> admin_delete py_int form w = (Inl (Abort 403), w)"
  using assms by (simp add: admin_add_def admin_delete_def)

lemma strip_blanks: "strip (lit ''  '') = []"
  by (simp add: strip_def is_space_def lit_def)

lemma int_abc: "int_ascii (lit ''abc'') = None"
  by code_simp

theorem secret_checked_first_witness:
  "strip (dict_get bad_request ''title'' []) = []
   \<and> int_ascii (dict_get bad_request ''id'' []) = None
   \<and> admin_add urlsplit_scheme bad_request seeded_world = (Inl (Abort 403), seeded_world)
   \<and> admin_delete int_ascii bad_request seeded_world = (Inl (Abort 403), seeded_world)"
  using secret_checked_first [of bad_request seeded_world urlsplit_scheme int_ascii]
  by (simp add: bad_request_def seeded_world_def dict_get_def strip_blanks int_abc lit_eq_iff)

text \<open>
  Claim C2. When the title or the url is empty after trimming, adding ends with
  \<open>abort(400)\<close>, which is not the storage error, and the world is unchanged, so no link is
  created; the same holds for the whole route when the password is right.
\<close>

theorem add_link_validation:
  assumes "strip (dict_get form ''title'' []) = [] \<or> strip (dict_get form ''url'' []) = []"
  shows "add_link urlparse_scheme form w = (Inl (Abort 400), w)
         \<and> Abort 400 \<noteq> OSError
         \<and> (dict_get form ''pass'' [] = ADMIN_PASSWORD w
              \<longrightarrow> admin_add urlparse_scheme form w = (Inl (Abort 400), w))"
  using assms by (auto simp add: add_link_def admin_add_def Let_def)

theorem add_link_validation_witness:
  "dict_get untitled_form ''title'' [] = []
   \<and> add_link urlsplit_scheme untitled_form seeded_world = (Inl (Abort 400), seeded_world)
   \<and> admin_add urlsplit_scheme untitled_form seeded_world = (Inl (Abort 400), seeded_world)"
  using add_link_validation [of untitled_form urlsplit_scheme seeded_world]
  by (simp add: untitled_form_def seeded_world_def dict_get_def strip_def)

subsection \<open>Filters\<close>

lemma prefix_take: "prefix xs ys \<longleftrightarrow> take (length xs) ys = xs"
  by (metis append_eq_conv_conj prefix_def append_take_drop_id)

lemma py_in_sublist: "py_in sub s \<longleftrightarrow> sublist sub s"
  by (induction s) (auto simp: sublist_Cons_right prefix_take)



lemma or_str_Nil: "or_str a [] = a"
  by (simp add: or_str_def)

lemma filter_by_text_eq:
  "filter_by_text lower links q =
     (if q = [] then links
      else filter (\<lambda>l. sublist (lower q) (lower (title l))
                      \<or> sublist (lower q) (lower (link_notes l))
                      \<or> sublist (lower q) (lower (url l))) links)"
  by (simp add: filter_by_text_def Let_def py_in_sublist)

lemma filter_by_category_eq:
  "filter_by_category lower links cat =
     (if cat = [] then links else filter (\<lambda>l. lower (category l) = lower cat) links)"
  by (simp add: filter_by_category_def or_str_Nil)







text \<open>
  Claim C9. The category filter followed by the text filter (the order of \<open>index\<close>)
  gives the same list as the text filter followed by the category filter, and a link is
  in that list exactly when each filter alone keeps it.
\<close>

theorem filters_commute:
  "filter_by_text lower (filter_by_category lower links cat) q
     = filter_by_category lower (filter_by_text lower links q) cat
   \<and> set (filter_by_text lower (filter_by_category lower links cat) q)
     = set (filter_by_category lower links cat) \<inter> set (filter_by_text lower links q)"
proof -
  have "filter P (filter Q links) = filter Q (filter P links)" for P Q :: "link \<Rightarrow> bool"
    by (simp add: conj_commute)
  then have "filter_by_text lower (filter_by_category lower links cat) q
     = filter_by_category lower (filter_by_text lower links q) cat"
    by (simp add: filter_by_text_eq filter_by_category_eq)
  moreover have "set (filter_by_text lower (filter_by_category lower links cat) q)
     = set (filter_by_category lower links cat) \<inter> set (filter_by_text lower links q)"
    by (auto simp add: filter_by_text_eq filter_by_category_eq)
  ultimately show ?thesis by simp
qed

theorem filters_commute_witness:
  "filter_by_text lower_latin_greek (filter_by_category lower_latin_greek DEFAULT_LINKS (lit ''dev''))
      (lit ''git'') = [DEFAULT_LINKS ! 1]
   \<and> filter_by_category lower_latin_greek (filter_by_text lower_latin_greek DEFAULT_LINKS (lit ''git''))
      (lit ''dev'') = [DEFAULT_LINKS ! 1]"
proof -
  have "filter_by_text lower_latin_greek
          (filter_by_category lower_latin_greek DEFAULT_LINKS (lit ''dev'')) (lit ''git'')
        = [DEFAULT_LINKS ! 1]"
    by code_simp
  with filters_commute [of lower_latin_greek DEFAULT_LINKS "lit ''dev''" "lit ''git''"]
  show ?thesis by simp
qed

subsection \<open>Adding and finding\<close>

lemma ids_below_next_id: "l \<in> set ls \<Longrightarrow> link_id l < next_id ls"
proof -
  assume h: "l \<in> set ls"
  then have "ls \<noteq> []" by auto
  then have "next_id ls = Max (link_id ` set ls) + 1" by (rule next_id_Max)
  moreover have "link_id l \<le> Max (link_id ` set ls)" using h by simp
  ultimately show ?thesis by simp
qed

lemma find_appended:
  assumes "\<forall>l \<in> set ls. \<not> P l" and "P new"
  shows "find P (ls @ [new]) = Some new"
  using assms by (induction ls) simp_all

lemma find_new_id:
  assumes "link_id new = next_id ls"
  shows "find (\<lambda>l. link_id l = link_id new) (ls @ [new]) = Some new"
proof (rule find_appended)
  show "\<forall>l\<in>set ls. link_id l \<noteq> link_id new"
    using ids_below_next_id assms by fastforce
qed simp

lemma load_links_total:
  assumes "can_read w" and "can_write w"
  shows "\<exists>ls w1 k. load_links w = (Inr ls, w1) \<and> can_read w1 \<and> can_write w1
            \<and> ADMIN_PASSWORD w1 = ADMIN_PASSWORD w
            \<and> clock w1 = (\<lambda>n. clock w (n + k))"
proof (cases "data_file w")
  case None
  with assms show ?thesis
    by (simp add: load_links_missing stamp_DEFAULT_LINKS) blast
next
  case (Some c)
  then have "load_links w = (Inr (read_links w), w)" by (simp add: load_links_existing)
  moreover have "clock w = (\<lambda>n. clock w (n + 0))" by simp
  ultimately show ?thesis using assms by blast
qed

text \<open>
  Claim C1, amended. When the trimmed title and url are not empty, \<open>urlparse\<close> accepts
  the trimmed url and the data file can be read and written, adding succeeds, and
  looking up the id of the new link in the world that adding left returns that link:
  its title, notes and category are the submitted ones trimmed, its url is the trimmed
  one, with \<open>https://\<close> in front when \<open>urlparse\<close> found no scheme, and its \<open>created\<close> is a
  reading of the clock followed by \<open>Z\<close>. The routes agree: \<open>redirect_link\<close> redirects to
  that url, and \<open>admin_add\<close> with the right password leaves the same world.
\<close>

theorem add_then_find:
  assumes rd: "can_read w" and wr: "can_write w"
    and t: "strip (dict_get form ''title'' []) \<noteq> []"
    and u: "strip (dict_get form ''url'' []) \<noteq> []"
    and s: "urlparse_scheme (strip (dict_get form ''url'' [])) = Some scheme"
  shows "\<exists>new w1 w2 k.
           add_link urlparse_scheme form w = (Inr new, w1)
           \<and> find_by_id (link_id new) w1 = (Inr new, w2)
           \<and> title new = strip (dict_get form ''title'' [])
           \<and> url new = (if scheme = [] then lit ''https://'' @ strip (dict_get form ''url'' [])
                         else strip (dict_get form ''url'' []))
           \<and> link_notes new = strip (dict_get form ''notes'' [])
           \<and> category new = strip (dict_get form ''category'' [])
           \<and> created new = clock w k @ lit ''Z''
           \<and> redirect_link (link_id new) w1 = (Inr (Redirect (url new)), w2)
           \<and> (dict_get form ''pass'' [] = ADMIN_PASSWORD w
                \<longrightarrow> admin_add urlparse_scheme form w = (Inr (Redirect (lit ''/admin'')), w1))"
proof -
  from load_links_total [OF rd wr] obtain ls w1 k where
    l: "load_links w = (Inr ls, w1)" and rd1: "can_read w1" and wr1: "can_write w1"
    and ck: "clock w1 = (\<lambda>n. clock w (n + k))" by blast
  define url1 where "url1 = (if scheme = [] then lit ''https://'' @ strip (dict_get form ''url'' [])
                         else strip (dict_get form ''url'' []))"
  define new where "new = \<lparr>link_id = next_id ls, title = strip (dict_get form ''title'' []),
      url = url1, link_notes = strip (dict_get form ''notes'' []),
      category = strip (dict_get form ''category'' []), created = clock w1 0 @ lit ''Z''\<rparr>"
  define w2 where "w2 = w1\<lparr>clock := (\<lambda>n. clock w1 (Suc n))\<rparr>"
  define w3 where "w3 = w2\<lparr>data_file := Some (Links (ls @ [new]))\<rparr>"
  have a: "add_link urlparse_scheme form w = (Inr new, w3)"
    using t u s l wr1
    by (simp add: add_link_def Let_def utcnow_isoformat_def save_links_def
          new_def w2_def w3_def url1_def)
  have "load_links w3 = (Inr (ls @ [new]), w3)"
    using rd1 by (simp add: w3_def w2_def load_links_def read_links_def)
  moreover have "find (\<lambda>l. link_id l = link_id new) (ls @ [new]) = Some new"
    by (rule find_new_id) (simp add: new_def)
  ultimately have f: "find_by_id (link_id new) w3 = (Inr new, w3)"
    by (simp add: find_by_id_def)
  have r: "redirect_link (link_id new) w3 = (Inr (Redirect (url new)), w3)"
    using f by (simp add: redirect_link_def)
  have p: "admin_add urlparse_scheme form w = (Inr (Redirect (lit ''/admin'')), w3)"
    if "dict_get form ''pass'' [] = ADMIN_PASSWORD w"
    using that a by (simp add: admin_add_def)
  have "created new = clock w k @ lit ''Z''"
    by (simp add: new_def ck)
  with a f r p show ?thesis
    unfolding url1_def [symmetric]
    by (intro exI [of _ new] exI [of _ w3] exI [of _ k]) (simp add: new_def)
qed

lemma strip_Docs: "strip (lit '' Docs '') = lit ''Docs''"
  and strip_example: "strip (lit ''example.com'') = lit ''example.com''"
  and strip_Dev: "strip (lit ''Dev'') = lit ''Dev''"
  and strip_readme: "strip (lit ''read me'') = lit ''read me''"
  by (simp_all add: strip_def is_space_def lit_def)

lemma urlsplit_example: "urlsplit_scheme (lit ''example.com'') = Some []"
  by code_simp

theorem add_then_find_witness:
  "\<exists>new w1 w2 k.
     add_link urlsplit_scheme padded_form seeded_world = (Inr new, w1)
     \<and> find_by_id (link_id new) w1 = (Inr new, w2)
     \<and> title new = lit ''Docs''
     \<and> url new = lit ''https://example.com''
     \<and> link_notes new = lit ''read me''
     \<and> category new = lit ''Dev''
     \<and> created new = clock seeded_world k @ lit ''Z''
     \<and> redirect_link (link_id new) w1 = (Inr (Redirect (url new)), w2)
     \<and> admin_add urlsplit_scheme padded_form seeded_world = (Inr (Redirect (lit ''/admin'')), w1)"
proof -
  have "can_read seeded_world" and "can_write seeded_world"
    by (simp_all add: seeded_world_def)
  moreover have "strip (dict_get padded_form ''title'' []) = lit ''Docs''"
    and "strip (dict_get padded_form ''url'' []) = lit ''example.com''"
    and "strip (dict_get padded_form ''notes'' []) = lit ''read me''"
    and "strip (dict_get padded_form ''category'' []) = lit ''Dev''"
    and "dict_get padded_form ''pass'' [] = ADMIN_PASSWORD seeded_world"
    by (simp_all add: seeded_world_def padded_form_def dict_get_def
          strip_Docs strip_example strip_Dev strip_readme)
  ultimately show ?thesis
    using add_then_find [of seeded_world padded_form urlsplit_scheme "[]"]
    by (simp add: urlsplit_example lit_eq_Nil lit_append [symmetric])
qed

text \<open>
  Claim C1, as stated, fails: the stored fields are the trimmed ones, not the submitted
  ones. A title submitted with a blank on each side is stored, and found, without them.
\<close>

theorem add_stores_trimmed_counterexample:
  "dict_get padded_form ''title'' [] = lit '' Docs ''
   \<and> fst (add_link urlsplit_scheme padded_form seeded_world)
       = Inr \<lparr>link_id = 4, title = lit ''Docs'', url = lit ''https://example.com'',
              link_notes = lit ''read me'', category = lit ''Dev'',
              created = lit ''2024-01-01T00:00:00Z''\<rparr>
   \<and> fst (find_by_id 4 (snd (add_link urlsplit_scheme padded_form seeded_world)))
       = Inr \<lparr>link_id = 4, title = lit ''Docs'', url = lit ''https://example.com'',
              link_notes = lit ''read me'', category = lit ''Dev'',
              created = lit ''2024-01-01T00:00:00Z''\<rparr>
   \<and> lit ''Docs'' \<noteq> lit '' Docs ''"
  by (simp add: add_link_def find_by_id_def load_links_def read_links_def save_links_def
        utcnow_isoformat_def Let_def padded_form_def dict_get_def seeded_world_def
        DEFAULT_LINKS_def strip_Docs strip_example strip_Dev strip_readme urlsplit_example
        lit_eq_iff lit_eq_Nil lit_append [symmetric])

end
